theory Spec2Isabelle
  imports Complex_Main "HOL-Library.Multiset" "HOL-Library.Product_Lexorder"
begin

section \<open>Data model of \<^verbatim>\<open>scripts/import-pdmx.py\<close>\<close>

text \<open>
  Beats, offsets, durations and tempo numbers are Python floats in the script. They are
  modelled as exact rationals: comparison, addition and division are the mathematical
  ones, and the rounding error of IEEE arithmetic is not part of the model. Python's
  unbounded integers are \<open>int\<close>; counters that start at zero and only grow are \<open>nat\<close>.
\<close>

datatype exn = ParseFailure string | ZeroDivisionError

text \<open>A NoteEvent dict: keys \<^verbatim>\<open>note\<close>, \<^verbatim>\<open>startBeat\<close>, \<^verbatim>\<open>durationBeats\<close>.\<close>

record note_event =
  note_midi :: int
  startBeat :: rat
  durationBeats :: rat

text \<open>
  The elements of \<^verbatim>\<open>score.flatten().notesAndRests\<close>: a note with its pitch (already
  as a MIDI number), a chord with its pitches, or a rest; each with its offset and the
  quarter length of its duration.
\<close>

datatype element =
  Note int rat rat
| Chord "int list" rat rat
| Rest rat rat

text \<open>
  A key-signature element: its number of sharps and, when the object has the attribute
  \<^verbatim>\<open>asKey\<close>, the string \<^verbatim>\<open>str(ks.asKey())\<close>.
\<close>

record key_signature =
  sharps :: int
  asKey :: "string option"

text \<open>A time-signature element; numerator and denominator are counts.\<close>

record time_signature =
  numerator :: nat
  denominator :: nat

record score_metadata =
  meta_title :: "string option"
  meta_composer :: "string option"

text \<open>
  What the script reads from a parsed score: the note stream, the key signatures, the time
  signatures, the numbers of the metronome marks (each in document order) and the
  metadata object, if any.
\<close>

record score =
  elements :: "element list"
  key_signatures :: "key_signature list"
  time_signatures :: "time_signature list"
  metronome_marks :: "rat list"
  metadata_of :: "score_metadata option"

record layers =
  melody :: "note_event list"
  full :: "note_event list"

record song_section =
  sec_id :: string
  sec_label :: string
  sec_startBeat :: rat
  sec_endBeat :: rat
  sec_difficulty :: int
  sec_layers :: layers

record song_metadata =
  md_title :: string
  md_artist :: string
  md_genre :: string
  md_difficulty :: int
  md_durationSeconds :: int
  md_attribution :: string

record song_settings =
  st_tempo :: int
  st_timeSignature :: "int list"
  st_keySignature :: string
  st_countIn :: int
  st_metronomeEnabled :: bool
  st_loopEnabled :: bool

record song_scoring =
  sc_timingToleranceMs :: int
  sc_timingGracePeriodMs :: int
  sc_passingScore :: int
  sc_starThresholds :: "int list"

record song =
  song_id :: string
  song_version :: int
  song_type :: string
  song_source :: string
  song_metadata :: song_metadata
  song_sections :: "song_section list"
  song_settings :: song_settings
  song_scoring :: song_scoring

text \<open>
  The library functions the script calls and that are not part of it: the music21 parser
  (which may raise), \<^verbatim>\<open>Path(...).stem\<close>, \<^verbatim>\<open>str.lower\<close> and \<^verbatim>\<open>str.title\<close>.
\<close>

record library =
  parse :: "string \<Rightarrow> exn + score"
  path_stem :: "string \<Rightarrow> string"
  str_lower :: "string \<Rightarrow> string"
  str_title :: "string \<Rightarrow> string"

section \<open>Helpers of the Python language\<close>

text \<open>\<^verbatim>\<open>int(x)\<close> on a float truncates towards zero.\<close>

definition py_int :: "rat \<Rightarrow> int" where
  "py_int x = (if 0 \<le> x then \<lfloor>x\<rfloor> else \<lceil>x\<rceil>)"

text \<open>The decimal rendering of a number in an f-string.\<close>

fun str_nat :: "nat \<Rightarrow> string" where
  "str_nat n =
     (if n < 10 then [''0123456789'' ! n]
      else str_nat (n div 10) @ [''0123456789'' ! (n mod 10)])"

declare str_nat.simps [simp del]

text \<open>\<^verbatim>\<open>s.replace(a, b)\<close> for one-character strings \<open>a\<close> and \<open>b\<close>.\<close>

definition replace_char :: "char \<Rightarrow> char \<Rightarrow> string \<Rightarrow> string" where
  "replace_char a b s = map (\<lambda>c. if c = a then b else c) s"

text \<open>
  \<^verbatim>\<open>max(g)\<close> over the values of a non-empty iterable, first element \<open>x\<close>: the running
  maximum is replaced only by a strictly larger value.
\<close>

definition py_max :: "rat \<Rightarrow> rat list \<Rightarrow> rat" where
  "py_max x xs = foldl (\<lambda>m y. if m < y then y else m) x xs"

section \<open>The extractors\<close>

definition end_beat :: "note_event \<Rightarrow> rat" where
  "end_beat n = startBeat n + durationBeats n"

definition extract_key_signature :: "score \<Rightarrow> string" where
  "extract_key_signature sc =
     (case key_signatures sc of
        [] \<Rightarrow> ''C''
      | ks # _ \<Rightarrow>
          (case asKey ks of
             Some s \<Rightarrow> s
           | None \<Rightarrow>
               if 0 \<le> sharps ks then str_nat (nat (sharps ks)) @ '' sharps''
               else str_nat (nat (\<bar>sharps ks\<bar>)) @ '' flats''))"

definition extract_time_signature :: "score \<Rightarrow> int \<times> int" where
  "extract_time_signature sc =
     (case time_signatures sc of
        [] \<Rightarrow> (4, 4)
      | ts # _ \<Rightarrow> (int (numerator ts), int (denominator ts)))"

definition extract_tempo :: "score \<Rightarrow> int" where
  "extract_tempo sc =
     (case metronome_marks sc of
        [] \<Rightarrow> 120
      | t # _ \<Rightarrow> py_int t)"

fun element_events :: "element \<Rightarrow> note_event list" where
  "element_events (Note p off d) =
     [\<lparr>note_midi = p, startBeat = off, durationBeats = d\<rparr>]"
| "element_events (Chord ps off d) =
     map (\<lambda>p. \<lparr>note_midi = p, startBeat = off, durationBeats = d\<rparr>) ps"
| "element_events (Rest off d) = []"

definition sort_key_of :: "note_event \<Rightarrow> rat \<times> int" where
  "sort_key_of n = (startBeat n, note_midi n)"

text \<open>\<^verbatim>\<open>list.sort\<close> is stable, as \<open>sort_key\<close> is; tuples compare lexicographically.\<close>

definition score_to_note_events :: "score \<Rightarrow> note_event list" where
  "score_to_note_events sc =
     sort_key sort_key_of (concat (map element_events (elements sc)))"

section \<open>The sectionizer\<close>

record loop_state =
  sections :: "song_section list"
  current_notes :: "note_event list"
  section_start :: rat
  section_idx :: nat

definition mk_section ::
  "nat \<Rightarrow> rat \<Rightarrow> rat \<Rightarrow> note_event list \<Rightarrow> song_section" where
  "mk_section idx start end_b ns =
     \<lparr>sec_id = ''section-'' @ str_nat idx,
      sec_label = ''Section '' @ str_nat (idx + 1),
      sec_startBeat = start,
      sec_endBeat = end_b,
      sec_difficulty = 3,
      sec_layers = \<lparr>melody = ns, full = ns\<rparr>\<rparr>"

text \<open>
  One iteration of the loop over the notes, \<open>bps\<close> being \<^verbatim>\<open>beats_per_section\<close>:
  the window is closed first when the test holds, then the note is appended to the buffer.
\<close>

definition step :: "int \<Rightarrow> loop_state \<Rightarrow> note_event \<Rightarrow> loop_state" where
  "step bps st n =
     (let st' =
        (if section_start st + of_int bps \<le> startBeat n \<and> current_notes st \<noteq> [] then
           \<lparr>sections = sections st @
              [mk_section (section_idx st) (section_start st)
                 (section_start st + of_int bps) (current_notes st)],
            current_notes = [],
            section_start = section_start st + of_int bps,
            section_idx = section_idx st + 1\<rparr>
         else st)
      in st'\<lparr>current_notes := current_notes st' @ [n]\<rparr>)"

definition init_state :: loop_state where
  "init_state = \<lparr>sections = [], current_notes = [], section_start = 0, section_idx = 0\<rparr>"

definition finish :: "loop_state \<Rightarrow> song_section list" where
  "finish st =
     (if current_notes st \<noteq> [] then
        sections st @
          [mk_section (section_idx st) (section_start st)
             (end_beat (last (current_notes st))) (current_notes st)]
      else sections st)"

definition split_into_sections ::
  "note_event list \<Rightarrow> int \<Rightarrow> int \<Rightarrow> song_section list" where
  "split_into_sections notes beats_per_bar bars_per_section =
     (if notes = [] then []
      else finish (foldl (step (beats_per_bar * bars_per_section)) init_state notes))"

section \<open>The estimators\<close>

fun estimate_difficulty :: "note_event list \<Rightarrow> int \<Rightarrow> int" where
  "estimate_difficulty [] tempo = 1"
| "estimate_difficulty (n # ns) tempo =
     (let last_beat = py_max (end_beat n) (map end_beat ns);
          density = of_nat (length (n # ns)) / max last_beat 1;
          score = density * (of_int tempo / 120)
      in if score < 1 / 2 then 1
         else if score < 1 then 2
         else if score < 2 then 3
         else if score < 3 then 4
         else 5)"

text \<open>Dividing by a tempo of zero raises \<^verbatim>\<open>ZeroDivisionError\<close>.\<close>

fun estimate_duration :: "note_event list \<Rightarrow> int \<Rightarrow> exn + int" where
  "estimate_duration [] tempo = Inr 60"
| "estimate_duration (n # ns) tempo =
     (let last_b = py_max (end_beat n) (map end_beat ns)
      in if tempo = 0 then Inl ZeroDivisionError
         else Inr (max (py_int ((last_b / of_int tempo) * 60)) 10))"

section \<open>The assembler\<close>

text \<open>
  \<^verbatim>\<open>x or d\<close>, and \<^verbatim>\<open>if x: t = x\<close> after \<^verbatim>\<open>t = d\<close>, for an optional string \<open>x\<close>:
  \<^verbatim>\<open>None\<close> and the empty string are both false.
\<close>

definition or_default :: "string option \<Rightarrow> string \<Rightarrow> string" where
  "or_default x d = (case x of None \<Rightarrow> d | Some t \<Rightarrow> if t = [] then d else t)"

text \<open>
  The result is \<open>Inl e\<close> when the call raises \<open>e\<close>, \<open>Inr None\<close> when it returns
  \<^verbatim>\<open>None\<close>, and \<open>Inr (Some doc)\<close> when it returns a document. The diagnostics it
  prints are not modelled.
\<close>

definition convert_file :: "library \<Rightarrow> string \<Rightarrow> exn + song option" where
  "convert_file L filepath =
     (case parse L filepath of
        Inl e \<Rightarrow> Inr None
      | Inr sc \<Rightarrow>
          let notes = score_to_note_events sc in
          if length notes < 4 then Inr None
          else
            let tempo = extract_tempo sc;
                time_sig = extract_time_signature sc;
                key_sig = extract_key_signature sc;
                difficulty = min 5 (max 1 (estimate_difficulty notes tempo));
                secs = split_into_sections notes (fst time_sig) 16
            in if secs = [] then Inr None
               else
                 let basename =
                       replace_char (CHR ''_'') (CHR ''-'')
                         (replace_char (CHR '' '') (CHR ''-'')
                            (str_lower L (path_stem L filepath)));
                     ident = ''pdmx-'' @ basename;
                     title0 = str_title L (replace_char (CHR ''-'') (CHR '' '') basename);
                     title =
                       (case metadata_of sc of
                          None \<Rightarrow> title0
                        | Some m \<Rightarrow> or_default (meta_title m) title0);
                     artist =
                       (case metadata_of sc of
                          None \<Rightarrow> ''Classical''
                        | Some m \<Rightarrow> or_default (meta_composer m) ''Classical'')
                 in (case estimate_duration notes tempo of
                      Inl e \<Rightarrow> Inl e
                    | Inr seconds \<Rightarrow>
                        Inr (Some
                          \<lparr>song_id = ident,
                           song_version = 1,
                           song_type = ''song'',
                           song_source = ''pdmx'',
                           song_metadata =
                             \<lparr>md_title = title,
                              md_artist = artist,
                              md_genre = ''classical'',
                              md_difficulty = difficulty,
                              md_durationSeconds = seconds,
                              md_attribution = ''Piano-MIDI.de corpus''\<rparr>,
                           song_sections = secs,
                           song_settings =
                             \<lparr>st_tempo = tempo,
                              st_timeSignature = [fst time_sig, snd time_sig],
                              st_keySignature = key_sig,
                              st_countIn = 4,
                              st_metronomeEnabled = True,
                              st_loopEnabled = True\<rparr>,
                           song_scoring =
                             \<lparr>sc_timingToleranceMs = 50,
                              sc_timingGracePeriodMs = 150,
                              sc_passingScore = 70,
                              sc_starThresholds = [70, 85, 95]\<rparr>\<rparr>)))"

section \<open>The specification's formulas\<close>

text \<open>
  The definitions of this section follow the words of the specification, not the code;
  the theorems below compare the two.
\<close>

fun pitches_of :: "element \<Rightarrow> int list" where
  "pitches_of (Note p off d) = [p]"
| "pitches_of (Chord ps off d) = ps"
| "pitches_of (Rest off d) = []"

fun offset_of :: "element \<Rightarrow> rat" where
  "offset_of (Note p off d) = off"
| "offset_of (Chord ps off d) = off"
| "offset_of (Rest off d) = off"

fun quarter_length_of :: "element \<Rightarrow> rat" where
  "quarter_length_of (Note p off d) = d"
| "quarter_length_of (Chord ps off d) = d"
| "quarter_length_of (Rest off d) = d"

text \<open>
  One event per pitch of each element, with the element's offset and duration; a rest has
  no pitch and gives no event.
\<close>

definition spec_note_events :: "element list \<Rightarrow> note_event list" where
  "spec_note_events es =
     concat (map (\<lambda>e. map (\<lambda>p. \<lparr>note_midi = p, startBeat = offset_of e,
                                     durationBeats = quarter_length_of e\<rparr>)
                            (pitches_of e)) es)"

text \<open>\<open>lastBeat = max(startBeat + durationBeats)\<close> over all notes.\<close>

definition spec_lastBeat :: "note_event list \<Rightarrow> rat" where
  "spec_lastBeat notes = Max ((\<lambda>n. startBeat n + durationBeats n) ` set notes)"





section \<open>Invariants of the sectionizer's loop\<close>

text \<open>
  After any number of iterations the closed sections are numbered from zero, section
  \<open>i\<close> spans the \<open>i\<close>-th nominal window and holds a non-empty buffer, and the window
  boundary is \<open>section_idx\<close> window widths from zero.
\<close>

definition loop_inv :: "int \<Rightarrow> loop_state \<Rightarrow> bool" where
  "loop_inv bps st \<longleftrightarrow>
     length (sections st) = section_idx st \<and>
     section_start st = of_nat (section_idx st) * of_int bps \<and>
     (\<forall>i<length (sections st). \<exists>g. g \<noteq> [] \<and>
        sections st ! i =
          mk_section i (of_nat i * of_int bps) (of_nat (Suc i) * of_int bps) g)"

text \<open>The notes placed so far, in the order of the sections and then the buffer.\<close>

definition placed :: "loop_state \<Rightarrow> note_event list" where
  "placed st = concat (map (\<lambda>s. full (sec_layers s)) (sections st)) @ current_notes st"

section \<open>Example inputs\<close>

text \<open>A library whose parser reads the given score from every path.\<close>

definition lib_of :: "score \<Rightarrow> library" where
  "lib_of sc =
     \<lparr>parse = (\<lambda>_. Inr sc), path_stem = (\<lambda>p. p),
      str_lower = (\<lambda>s. s), str_title = (\<lambda>s. s)\<rparr>"

definition ev :: "int \<Rightarrow> rat \<Rightarrow> rat \<Rightarrow> note_event" where
  "ev p off d = \<lparr>note_midi = p, startBeat = off, durationBeats = d\<rparr>"

text \<open>
  Five single notes at offsets 0 to 4, each one beat long, tempo 120, time signature 4/4.
\<close>

definition five_notes :: score where
  "five_notes =
     \<lparr>elements = [Note 60 0 1, Note 62 1 1, Note 64 2 1, Note 65 3 1, Note 67 4 1],
      key_signatures = [\<lparr>sharps = 0, asKey = Some ''C major''\<rparr>],
      time_signatures = [\<lparr>numerator = 4, denominator = 4\<rparr>],
      metronome_marks = [120],
      metadata_of = Some \<lparr>meta_title = Some ''Scale'', meta_composer = None\<rparr>\<rparr>"

definition five_notes_events :: "note_event list" where
  "five_notes_events = [ev 60 0 1, ev 62 1 1, ev 64 2 1, ev 65 3 1, ev 67 4 1]"

definition five_notes_doc :: song where
  "five_notes_doc =
     \<lparr>song_id = ''pdmx-five-notes'',
      song_version = 1,
      song_type = ''song'',
      song_source = ''pdmx'',
      song_metadata =
        \<lparr>md_title = ''Scale'', md_artist = ''Classical'', md_genre = ''classical'',
         md_difficulty = 3, md_durationSeconds = 10,
         md_attribution = ''Piano-MIDI.de corpus''\<rparr>,
      song_sections =
        [\<lparr>sec_id = ''section-0'', sec_label = ''Section 1'', sec_startBeat = 0,
          sec_endBeat = 5, sec_difficulty = 3,
          sec_layers = \<lparr>melody = five_notes_events, full = five_notes_events\<rparr>\<rparr>],
      song_settings =
        \<lparr>st_tempo = 120, st_timeSignature = [4, 4], st_keySignature = ''C major'',
         st_countIn = 4, st_metronomeEnabled = True, st_loopEnabled = True\<rparr>,
      song_scoring =
        \<lparr>sc_timingToleranceMs = 50, sc_timingGracePeriodMs = 150, sc_passingScore = 70,
         sc_starThresholds = [70, 85, 95]\<rparr>\<rparr>"

text \<open>
  Four notes, the first held for 31.5 beats under the three that follow it, tempo 120; no
  key signature, time signature or metadata.
\<close>

definition held_note :: score where
  "held_note =
     \<lparr>elements = [Note 60 0 (63 / 2), Note 62 1 1, Note 64 2 1, Note 65 3 1],
      key_signatures = [],
      time_signatures = [],
      metronome_marks = [120],
      metadata_of = None\<rparr>"

definition held_note_events :: "note_event list" where
  "held_note_events = [ev 60 0 (63 / 2), ev 62 1 1, ev 64 2 1, ev 65 3 1]"

definition held_note_doc :: song where
  "held_note_doc =
     \<lparr>song_id = ''pdmx-held-note'',
      song_version = 1,
      song_type = ''song'',
      song_source = ''pdmx'',
      song_metadata =
        \<lparr>md_title = ''held note'', md_artist = ''Classical'', md_genre = ''classical'',
         md_difficulty = 1, md_durationSeconds = 15,
         md_attribution = ''Piano-MIDI.de corpus''\<rparr>,
      song_sections =
        [\<lparr>sec_id = ''section-0'', sec_label = ''Section 1'', sec_startBeat = 0,
          sec_endBeat = 4, sec_difficulty = 3,
          sec_layers = \<lparr>melody = held_note_events, full = held_note_events\<rparr>\<rparr>],
      song_settings =
        \<lparr>st_tempo = 120, st_timeSignature = [4, 4], st_keySignature = ''C'',
         st_countIn = 4, st_metronomeEnabled = True, st_loopEnabled = True\<rparr>,
      song_scoring =
        \<lparr>sc_timingToleranceMs = 50, sc_timingGracePeriodMs = 150, sc_passingScore = 70,
         sc_starThresholds = [70, 85, 95]\<rparr>\<rparr>"

text \<open>The five notes again, under a tempo mark whose number is zero.\<close>

definition zero_tempo :: score where
  "zero_tempo = five_notes\<lparr>metronome_marks := [0]\<rparr>"



text \<open>A chord between a rest and two single notes, not in the order of their offsets.\<close>

definition chord_elements :: "element list" where
  "chord_elements = [Chord [64, 60] 1 2, Rest 0 1, Note 50 0 1, Note 70 1 (1 / 2)]"

definition chord_score :: score where
  "chord_score = five_notes\<lparr>elements := chord_elements\<rparr>"

text \<open>Two notes, the second more than three windows of 64 beats after the first.\<close>

definition far_notes :: "note_event list" where
  "far_notes = [ev 60 0 1, ev 62 200 1]"

section \<open>Python's running maximum\<close>

lemma py_max_eq_Max: "py_max x xs = Max (insert x (set xs))"
proof (induction xs arbitrary: x)
  case Nil
  show ?case by (simp add: py_max_def)
next
  case (Cons y ys)
  have "py_max x (y # ys) = py_max (max x y) ys"
    by (simp add: py_max_def max_def)
  also have "\<dots> = Max (insert (max x y) (set ys))" by (rule Cons.IH)
  also have "\<dots> = Max (insert x (set (y # ys)))"
    by (cases "set ys = {}") (simp_all add: max.assoc)
  finally show ?case .
qed

section \<open>The loop of the sectionizer\<close>

lemma step_close:
  assumes "section_start st + of_int bps \<le> startBeat n" and "current_notes st \<noteq> []"
  shows "step bps st n =
     \<lparr>sections = sections st @
        [mk_section (section_idx st) (section_start st)
           (section_start st + of_int bps) (current_notes st)],
      current_notes = [n],
      section_start = section_start st + of_int bps,
      section_idx = Suc (section_idx st)\<rparr>"
  using assms by (simp add: step_def)

lemma step_keep:
  assumes "\<not> (section_start st + of_int bps \<le> startBeat n \<and> current_notes st \<noteq> [])"
  shows "step bps st n = st\<lparr>current_notes := current_notes st @ [n]\<rparr>"
proof -
  from assms have "(if section_start st + of_int bps \<le> startBeat n \<and> current_notes st \<noteq> []
    then x else y) = y" for x y :: loop_state
    by (rule if_not_P)
  then show ?thesis by (simp only: step_def Let_def)
qed

lemma loop_inv_init: "loop_inv bps init_state"
  by (simp add: loop_inv_def init_state_def)

lemma loop_inv_step:
  assumes "loop_inv bps st"
  shows "loop_inv bps (step bps st n)"
proof (cases "section_start st + of_int bps \<le> startBeat n \<and> current_notes st \<noteq> []")
  case True
  then have eq: "step bps st n =
     \<lparr>sections = sections st @
        [mk_section (section_idx st) (section_start st)
           (section_start st + of_int bps) (current_notes st)],
      current_notes = [n],
      section_start = section_start st + of_int bps,
      section_idx = Suc (section_idx st)\<rparr>"
    by (simp add: step_close)
  from assms have len: "length (sections st) = section_idx st"
    and start: "section_start st = of_nat (section_idx st) * of_int bps"
    and old: "\<And>i. i < length (sections st) \<Longrightarrow> \<exists>g. g \<noteq> [] \<and>
        sections st ! i =
          mk_section i (of_nat i * of_int bps) (of_nat (Suc i) * of_int bps) g"
    by (simp_all add: loop_inv_def)
  have new: "section_start st + of_int bps = of_nat (Suc (section_idx st)) * of_int bps"
    by (simp add: start algebra_simps)
  show ?thesis
    unfolding loop_inv_def eq
  proof (intro conjI allI impI)
    fix i
    assume "i < length (loop_state.sections \<lparr>sections = sections st @
        [mk_section (section_idx st) (section_start st)
           (section_start st + of_int bps) (current_notes st)],
      current_notes = [n],
      section_start = section_start st + of_int bps,
      section_idx = Suc (section_idx st)\<rparr>)"
    then have "i < length (sections st) \<or> i = length (sections st)" by auto
    then show "\<exists>g. g \<noteq> [] \<and> sections \<lparr>sections = sections st @
        [mk_section (section_idx st) (section_start st)
           (section_start st + of_int bps) (current_notes st)],
      current_notes = [n],
      section_start = section_start st + of_int bps,
      section_idx = Suc (section_idx st)\<rparr> ! i =
          mk_section i (of_nat i * of_int bps) (of_nat (Suc i) * of_int bps) g"
    proof
      assume "i < length (sections st)"
      then show ?thesis using old [of i] by (simp add: nth_append)
    next
      assume "i = length (sections st)"
      then show ?thesis using True len start new by (auto simp: nth_append intro!: exI [of _ "current_notes st"])
    qed
  qed (simp_all add: len new)
next
  case False
  then have "step bps st n = st\<lparr>current_notes := current_notes st @ [n]\<rparr>"
    by (rule step_keep)
  with assms show ?thesis by (simp add: loop_inv_def)
qed

lemma loop_inv_foldl: "loop_inv bps st \<Longrightarrow> loop_inv bps (foldl (step bps) st ns)"
  by (induction ns arbitrary: st) (simp_all add: loop_inv_step)

lemma placed_step: "placed (step bps st n) = placed st @ [n]"
  by (simp add: step_def placed_def mk_section_def Let_def)

lemma placed_foldl: "placed (foldl (step bps) st ns) = placed st @ ns"
  by (induction ns arbitrary: st) (simp_all add: placed_step)

lemma current_notes_step: "current_notes (step bps st n) \<noteq> []"
  by (simp add: step_def Let_def)

lemma current_notes_foldl:
  "ns \<noteq> [] \<Longrightarrow> current_notes (foldl (step bps) st ns) \<noteq> []"
  by (induction ns arbitrary: st rule: rev_induct) (simp_all add: current_notes_step)

lemma last_current_step: "last (current_notes (step bps st n)) = n"
  by (simp add: step_def Let_def)

lemma last_current_foldl:
  "ns \<noteq> [] \<Longrightarrow> last (current_notes (foldl (step bps) st ns)) = last ns"
  by (induction ns arbitrary: st rule: rev_induct) (simp_all add: last_current_step)

section \<open>The sections returned\<close>

lemma split_nonempty:
  assumes "notes \<noteq> []"
  shows "split_into_sections notes bpb bars =
    sections (foldl (step (bpb * bars)) init_state notes) @
      [mk_section (section_idx (foldl (step (bpb * bars)) init_state notes))
         (section_start (foldl (step (bpb * bars)) init_state notes))
         (end_beat (last notes))
         (current_notes (foldl (step (bpb * bars)) init_state notes))]"
  using assms
  by (simp add: split_into_sections_def finish_def current_notes_foldl last_current_foldl)

lemma length_split:
  assumes "notes \<noteq> []"
  shows "length (split_into_sections notes bpb bars) =
    Suc (section_idx (foldl (step (bpb * bars)) init_state notes))"
proof -
  have "loop_inv (bpb * bars) (foldl (step (bpb * bars)) init_state notes)"
    by (rule loop_inv_foldl [OF loop_inv_init])
  then show ?thesis
    by (simp add: split_nonempty [OF assms] loop_inv_def)
qed

lemma split_nth_closed:
  assumes "Suc i < length (split_into_sections notes bpb bars)"
  shows "\<exists>g. g \<noteq> [] \<and> split_into_sections notes bpb bars ! i =
    mk_section i (of_nat i * of_int (bpb * bars)) (of_nat (Suc i) * of_int (bpb * bars)) g"
proof -
  let ?st = "foldl (step (bpb * bars)) init_state notes"
  from assms have ne: "notes \<noteq> []" by (auto simp: split_into_sections_def)
  have inv: "loop_inv (bpb * bars) ?st"
    by (rule loop_inv_foldl [OF loop_inv_init])
  from assms have i: "i < length (sections ?st)"
    using inv by (simp add: length_split [OF ne] loop_inv_def)
  then have "split_into_sections notes bpb bars ! i = sections ?st ! i"
    by (simp add: split_nonempty [OF ne] nth_append)
  with inv i show ?thesis by (simp add: loop_inv_def)
qed

lemma split_last:
  assumes "notes \<noteq> []"
  shows "\<exists>g. g \<noteq> [] \<and> last g = last notes \<and> last (split_into_sections notes bpb bars) =
    mk_section (length (split_into_sections notes bpb bars) - 1)
      (of_nat (length (split_into_sections notes bpb bars) - 1) * of_int (bpb * bars))
      (end_beat (last notes)) g"
proof -
  let ?st = "foldl (step (bpb * bars)) init_state notes"
  have inv: "loop_inv (bpb * bars) ?st"
    by (rule loop_inv_foldl [OF loop_inv_init])
  have "current_notes ?st \<noteq> []" "last (current_notes ?st) = last notes"
    using assms by (simp_all add: current_notes_foldl last_current_foldl)
  moreover have "last (split_into_sections notes bpb bars) =
    mk_section (section_idx ?st) (section_start ?st) (end_beat (last notes)) (current_notes ?st)"
    by (simp add: split_nonempty [OF assms])
  moreover have "section_start ?st = of_nat (section_idx ?st) * of_int (bpb * bars)"
    using inv by (simp add: loop_inv_def)
  ultimately show ?thesis
    by (auto simp: length_split [OF assms])
qed

lemma split_startBeat_nth:
  assumes "i < length (split_into_sections notes bpb bars)"
  shows "sec_startBeat (split_into_sections notes bpb bars ! i) = of_nat i * of_int (bpb * bars)"
proof (cases "Suc i < length (split_into_sections notes bpb bars)")
  case True
  from split_nth_closed [OF True] show ?thesis by (auto simp: mk_section_def)
next
  case False
  with assms have i: "i = length (split_into_sections notes bpb bars) - 1" by simp
  from assms have ne: "notes \<noteq> []" by (auto simp: split_into_sections_def)
  from assms have "split_into_sections notes bpb bars \<noteq> []" by auto
  then have "split_into_sections notes bpb bars ! i = last (split_into_sections notes bpb bars)"
    by (simp add: i last_conv_nth)
  with split_last [OF ne, of bpb bars] show ?thesis
    by (auto simp: mk_section_def i)
qed

lemma split_layers:
  assumes "s \<in> set (split_into_sections notes bpb bars)"
  shows "melody (sec_layers s) = full (sec_layers s) \<and> full (sec_layers s) \<noteq> []"
proof -
  from assms obtain i where i: "i < length (split_into_sections notes bpb bars)"
    and s: "s = split_into_sections notes bpb bars ! i"
    by (auto simp: in_set_conv_nth)
  from i have ne: "notes \<noteq> []" by (auto simp: split_into_sections_def)
  show ?thesis
  proof (cases "Suc i < length (split_into_sections notes bpb bars)")
    case True
    from split_nth_closed [OF True] s show ?thesis by (auto simp: mk_section_def)
  next
    case False
    with i have "i = length (split_into_sections notes bpb bars) - 1" by simp
    moreover from i have "split_into_sections notes bpb bars \<noteq> []" by auto
    ultimately have "s = last (split_into_sections notes bpb bars)"
      by (simp add: s last_conv_nth)
    with split_last [OF ne, of bpb bars] show ?thesis
      by (auto simp: mk_section_def)
  qed
qed

lemma split_concat:
  "concat (map (\<lambda>s. full (sec_layers s)) (split_into_sections notes bpb bars)) = notes"
proof (cases "notes = []")
  case True
  then show ?thesis by (simp add: split_into_sections_def)
next
  case False
  let ?st = "foldl (step (bpb * bars)) init_state notes"
  have "concat (map (\<lambda>s. full (sec_layers s)) (split_into_sections notes bpb bars)) = placed ?st"
    by (simp add: split_nonempty [OF False] placed_def mk_section_def)
  also have "\<dots> = notes"
    by (simp add: placed_foldl) (simp add: placed_def init_state_def)
  finally show ?thesis .
qed

lemma split_sorted:
  assumes "0 \<le> bpb * bars"
  shows "sorted (map sec_startBeat (split_into_sections notes bpb bars))"
proof -
  have "sec_startBeat (split_into_sections notes bpb bars ! i) \<le>
        sec_startBeat (split_into_sections notes bpb bars ! j)"
    if "i \<le> j" "j < length (split_into_sections notes bpb bars)" for i j
  proof -
    from that have "(of_nat i :: rat) \<le> of_nat j" by simp
    moreover from assms have "(0::rat) \<le> of_int (bpb * bars)"
      by (simp only: of_int_0_le_iff)
    ultimately have "(of_nat i :: rat) * of_int (bpb * bars) \<le> of_nat j * of_int (bpb * bars)"
      by (rule mult_right_mono)
    with that show ?thesis by (simp add: split_startBeat_nth)
  qed
  then show ?thesis by (simp add: sorted_iff_nth_mono)
qed

section \<open>The estimators and the assembler\<close>

lemma py_max_lastBeat:
  "py_max (end_beat n) (map end_beat ns) = spec_lastBeat (n # ns)"
  by (simp add: py_max_eq_Max spec_lastBeat_def end_beat_def)

lemma estimate_duration_ok:
  assumes "notes \<noteq> []" and "tempo \<noteq> 0"
  shows "estimate_duration notes tempo =
    Inr (max (py_int (spec_lastBeat notes / of_int tempo * 60)) 10)"
proof -
  from assms(1) obtain n ns where "notes = n # ns" by (cases "notes") auto
  with assms(2) show ?thesis
    by (simp add: py_max_lastBeat)
qed

lemma estimate_duration_zero:
  assumes "notes \<noteq> []"
  shows "estimate_duration notes 0 = Inl ZeroDivisionError"
proof -
  from assms obtain n ns where "notes = n # ns" by (cases "notes") auto
  then show ?thesis by simp
qed



lemma split_eq_Nil_iff: "split_into_sections notes bpb bars = [] \<longleftrightarrow> notes = []"
proof
  assume "split_into_sections notes bpb bars = []"
  then show "notes = []"
    using length_split [of "notes" bpb bars] by (cases "notes = []") auto
next
  assume "notes = []"
  then show "split_into_sections notes bpb bars = []"
    by (simp add: split_into_sections_def)
qed

lemma convert_file_parse_error:
  assumes "parse L fp = Inl e"
  shows "convert_file L fp = Inr None"
  using assms by (simp add: convert_file_def)

lemma convert_file_too_few:
  assumes "parse L fp = Inr sc" and "length (score_to_note_events sc) < 4"
  shows "convert_file L fp = Inr None"
  using assms by (simp add: convert_file_def)

lemma convert_file_zero_tempo:
  assumes "parse L fp = Inr sc" and "4 \<le> length (score_to_note_events sc)"
    and "extract_tempo sc = 0"
  shows "convert_file L fp = Inl ZeroDivisionError"
proof -
  from assms(2) have ne: "score_to_note_events sc \<noteq> []" by auto
  then have "split_into_sections (score_to_note_events sc) b 16 \<noteq> []" for b
    by (simp add: split_eq_Nil_iff)
  with assms ne show ?thesis
    by (simp add: convert_file_def Let_def estimate_duration_zero)
qed

lemma convert_file_accepts:
  assumes "parse L fp = Inr sc" and "4 \<le> length (score_to_note_events sc)"
    and "extract_tempo sc \<noteq> 0"
  shows "\<exists>doc. convert_file L fp = Inr (Some doc) \<and>
    song_sections doc =
      split_into_sections (score_to_note_events sc) (fst (extract_time_signature sc)) 16 \<and>
    md_difficulty (song_metadata doc) =
      min 5 (max 1 (estimate_difficulty (score_to_note_events sc) (extract_tempo sc))) \<and>
    md_durationSeconds (song_metadata doc) =
      max (py_int (spec_lastBeat (score_to_note_events sc) / of_int (extract_tempo sc) * 60)) 10 \<and>
    st_tempo (song_settings doc) = extract_tempo sc"
proof -
  from assms(2) have ne: "score_to_note_events sc \<noteq> []" by auto
  then have "split_into_sections (score_to_note_events sc) b 16 \<noteq> []" for b
    by (simp add: split_eq_Nil_iff)
  with assms ne show ?thesis
    by (simp add: convert_file_def Let_def estimate_duration_ok)
qed

lemma convert_file_SomeD:
  assumes "convert_file L fp = Inr (Some doc)"
  shows "\<exists>sc. parse L fp = Inr sc \<and> 4 \<le> length (score_to_note_events sc) \<and>
    extract_tempo sc \<noteq> 0 \<and>
    song_sections doc =
      split_into_sections (score_to_note_events sc) (fst (extract_time_signature sc)) 16 \<and>
    md_difficulty (song_metadata doc) =
      min 5 (max 1 (estimate_difficulty (score_to_note_events sc) (extract_tempo sc))) \<and>
    md_durationSeconds (song_metadata doc) =
      max (py_int (spec_lastBeat (score_to_note_events sc) / of_int (extract_tempo sc) * 60)) 10 \<and>
    st_tempo (song_settings doc) = extract_tempo sc"
proof (cases "parse L fp")
  case (Inl e)
  with assms show ?thesis by (simp add: convert_file_parse_error)
next
  case (Inr sc)
  show ?thesis
  proof (cases "length (score_to_note_events sc) < 4")
    case True
    with Inr assms show ?thesis by (simp add: convert_file_too_few)
  next
    case False
    then have len: "4 \<le> length (score_to_note_events sc)" by simp
    show ?thesis
    proof (cases "extract_tempo sc = 0")
      case True
      with Inr len assms show ?thesis by (simp add: convert_file_zero_tempo)
    next
      case False
      from convert_file_accepts [OF Inr len False] assms Inr len False
      show ?thesis by auto
    qed
  qed
qed

section \<open>The examples, evaluated\<close>

lemmas example_defs = ev_def lib_of_def five_notes_def five_notes_events_def
  five_notes_doc_def held_note_def held_note_events_def held_note_doc_def

lemma events_five: "score_to_note_events five_notes = five_notes_events"
  by (simp add: score_to_note_events_def sort_key_of_def example_defs)

lemma events_held: "score_to_note_events held_note = held_note_events"
  by (simp add: score_to_note_events_def sort_key_of_def example_defs)

lemma split_five: "split_into_sections five_notes_events 4 16 = song_sections five_notes_doc"
  by (simp add: split_into_sections_def step_def finish_def init_state_def mk_section_def
      end_beat_def str_nat.simps example_defs)

lemma split_held: "split_into_sections held_note_events 4 16 = song_sections held_note_doc"
  by (simp add: split_into_sections_def step_def finish_def init_state_def mk_section_def
      end_beat_def str_nat.simps example_defs)

lemma ts_five: "extract_time_signature five_notes = (4, 4)"
  by (simp add: extract_time_signature_def five_notes_def)
lemma ts_held: "extract_time_signature held_note = (4, 4)"
  by (simp add: extract_time_signature_def held_note_def)
lemma tempo_five: "extract_tempo five_notes = 120"
  by (simp add: extract_tempo_def five_notes_def py_int_def)
lemma tempo_held: "extract_tempo held_note = 120"
  by (simp add: extract_tempo_def held_note_def py_int_def floor_eq_iff)
lemma dur_five: "estimate_duration five_notes_events 120 = Inr 10"
  by (simp add: five_notes_events_def ev_def py_max_def end_beat_def py_int_def floor_eq_iff)
lemma dur_held: "estimate_duration held_note_events 120 = Inr 15"
  by (simp add: held_note_events_def ev_def py_max_def end_beat_def py_int_def floor_eq_iff)
lemma diff_five: "estimate_difficulty five_notes_events 120 = 3"
  by (simp add: five_notes_events_def ev_def py_max_def end_beat_def)
lemma diff_held: "estimate_difficulty held_note_events 120 = 1"
  by (simp add: held_note_events_def ev_def py_max_def end_beat_def)

lemma conv_five: "convert_file (lib_of five_notes) ''five_notes'' = Inr (Some five_notes_doc)"
proof -
  have "parse (lib_of five_notes) ''five_notes'' = Inr five_notes"
    by (simp add: lib_of_def)
  moreover have "length five_notes_events = 5" by (simp add: five_notes_events_def)
  moreover have "song_sections five_notes_doc \<noteq> []" by (simp add: five_notes_doc_def)
  ultimately show ?thesis
    unfolding convert_file_def
    apply (simp add: events_five Let_def ts_five tempo_five split_five dur_five diff_five)
    apply (simp add: lib_of_def five_notes_doc_def five_notes_def extract_key_signature_def replace_char_def or_default_def)
    done
qed

lemma conv_held: "convert_file (lib_of held_note) ''held_note'' = Inr (Some held_note_doc)"
proof -
  have "parse (lib_of held_note) ''held_note'' = Inr held_note"
    by (simp add: lib_of_def)
  moreover have "length held_note_events = 4" by (simp add: held_note_events_def)
  moreover have "song_sections held_note_doc \<noteq> []" by (simp add: held_note_doc_def)
  ultimately show ?thesis
    unfolding convert_file_def
    apply (simp add: events_held Let_def ts_held tempo_held split_held dur_held diff_held)
    apply (simp add: lib_of_def held_note_doc_def held_note_def extract_key_signature_def replace_char_def or_default_def)
    done
qed


lemma convert_file_returns_iff:
  "(\<exists>doc. convert_file L fp = Inr (Some doc)) \<longleftrightarrow>
   (\<exists>sc. parse L fp = Inr sc \<and> 4 \<le> length (score_to_note_events sc) \<and>
      extract_tempo sc \<noteq> 0)"
proof
  assume "\<exists>doc. convert_file L fp = Inr (Some doc)"
  then obtain doc where "convert_file L fp = Inr (Some doc)" ..
  from convert_file_SomeD [OF this] show
    "\<exists>sc. parse L fp = Inr sc \<and> 4 \<le> length (score_to_note_events sc) \<and>
      extract_tempo sc \<noteq> 0"
    by blast
next
  assume "\<exists>sc. parse L fp = Inr sc \<and> 4 \<le> length (score_to_note_events sc) \<and>
      extract_tempo sc \<noteq> 0"
  then obtain sc where "parse L fp = Inr sc" "4 \<le> length (score_to_note_events sc)"
    "extract_tempo sc \<noteq> 0" by blast
  from convert_file_accepts [OF this] show "\<exists>doc. convert_file L fp = Inr (Some doc)"
    by blast
qed

section \<open>The claims about accepted files\<close>

lemma split_hd_startBeat:
  assumes "notes \<noteq> []"
  shows "sec_startBeat (hd (split_into_sections notes bpb bars)) = 0"
proof -
  from assms have ne: "split_into_sections notes bpb bars \<noteq> []"
    by (simp add: split_eq_Nil_iff)
  then have "0 < length (split_into_sections notes bpb bars)" by simp
  from split_startBeat_nth [OF this] ne show ?thesis
    by (simp add: hd_conv_nth)
qed

lemma time_signature_nonneg: "0 \<le> fst (extract_time_signature sc) * 16"
  by (simp add: extract_time_signature_def split: list.splits)

text \<open>
  Claim C1, as amended. For every accepted file the list of sections is non-empty and the
  final section's \<open>endBeat\<close> is \<open>startBeat + durationBeats\<close> of the last note of that
  section, in list order. This is at most the maximum of \<open>startBeat + durationBeats\<close> over
  the section's notes, and it is smaller when an earlier note of the section ends later.
\<close>

theorem final_section_endBeat:
  assumes "convert_file L fp = Inr (Some doc)"
  shows "song_sections doc \<noteq> [] \<and>
    sec_endBeat (last (song_sections doc)) =
      startBeat (last (full (sec_layers (last (song_sections doc))))) +
      durationBeats (last (full (sec_layers (last (song_sections doc))))) \<and>
    sec_endBeat (last (song_sections doc)) \<le>
      spec_lastBeat (full (sec_layers (last (song_sections doc))))"
proof -
  from convert_file_SomeD [OF assms] obtain sc where
    len: "4 \<le> length (score_to_note_events sc)" and
    secs: "song_sections doc =
      split_into_sections (score_to_note_events sc) (fst (extract_time_signature sc)) 16"
    by blast
  from len have ne: "score_to_note_events sc \<noteq> []" by auto
  from split_last [OF ne, of "fst (extract_time_signature sc)" 16] secs
  obtain g k where g: "g \<noteq> []" "last g = last (score_to_note_events sc)"
    and l: "last (song_sections doc) =
      mk_section k (of_nat k * of_int (fst (extract_time_signature sc) * 16))
        (end_beat (last (score_to_note_events sc))) g"
    by auto
  have full: "full (sec_layers (last (song_sections doc))) = g"
    and e: "sec_endBeat (last (song_sections doc)) = end_beat (last g)"
    by (simp_all add: l mk_section_def g)
  have "end_beat (last g) \<in> (\<lambda>n. startBeat n + durationBeats n) ` set g"
    using g(1) by (auto simp: end_beat_def)
  then have "end_beat (last g) \<le> spec_lastBeat g"
    by (simp add: spec_lastBeat_def)
  moreover have "song_sections doc \<noteq> []"
    using ne by (simp add: secs split_eq_Nil_iff)
  ultimately show ?thesis
    by (simp add: full e) (simp add: end_beat_def)
qed

text \<open>The five-note scale is accepted; its only section ends at beat 5.\<close>

theorem final_section_endBeat_witness:
  "convert_file (lib_of five_notes) ''five_notes'' = Inr (Some five_notes_doc) \<and>
   sec_endBeat (last (song_sections five_notes_doc)) = 5 \<and>
   startBeat (last (full (sec_layers (last (song_sections five_notes_doc))))) +
     durationBeats (last (full (sec_layers (last (song_sections five_notes_doc))))) = 5 \<and>
   5 \<le> spec_lastBeat (full (sec_layers (last (song_sections five_notes_doc))))"
proof -
  have e: "sec_endBeat (last (song_sections five_notes_doc)) = 5"
    by (simp add: five_notes_doc_def)
  from final_section_endBeat [OF conv_five] conv_five show ?thesis
    by (simp only: e) simp
qed

text \<open>
  Claim C1 as stated fails on the held note: the file is accepted, the final section's
  \<open>endBeat\<close> is 4, the end of its last note, while the maximum of
  \<open>startBeat + durationBeats\<close> over the notes of that section is 31.5.
\<close>

theorem final_section_endBeat_counterexample:
  "convert_file (lib_of held_note) ''held_note'' = Inr (Some held_note_doc) \<and>
   sec_endBeat (last (song_sections held_note_doc)) = 4 \<and>
   spec_lastBeat (full (sec_layers (last (song_sections held_note_doc)))) = 63 / 2"
  by (simp add: conv_held)
    (simp add: held_note_doc_def held_note_events_def ev_def spec_lastBeat_def)




section \<open>The claims about the extractors and estimators\<close>






text \<open>
  Claim C7. The extracted notes are the specification's events (one per pitch of every
  note and chord, with the element's offset and duration, none for a rest) as a multiset,
  as many as there are pitches; they are sorted by \<open>(startBeat, pitch)\<close>, start beat first
  and pitch among equal start beats, whatever the order of the elements; and the sort is
  stable: events with the same key \<open>k\<close> keep the order in which they were emitted.
\<close>

theorem note_events_sorted:
  "sorted (map (\<lambda>n. (startBeat n, note_midi n)) (score_to_note_events sc)) \<and>
   sorted_wrt (\<lambda>a b. startBeat a < startBeat b \<or>
                 startBeat a = startBeat b \<and> note_midi a \<le> note_midi b)
     (score_to_note_events sc) \<and>
   mset (score_to_note_events sc) = mset (spec_note_events (elements sc)) \<and>
   length (score_to_note_events sc) = (\<Sum>e\<leftarrow>elements sc. length (pitches_of e)) \<and>
   [n \<leftarrow> score_to_note_events sc. (startBeat n, note_midi n) = k] =
   [n \<leftarrow> spec_note_events (elements sc). (startBeat n, note_midi n) = k]"
proof -
  have ev: "element_events e =
    map (\<lambda>p. \<lparr>note_midi = p, startBeat = offset_of e, durationBeats = quarter_length_of e\<rparr>)
      (pitches_of e)" for e
    by (cases e) simp_all
  have "element_events =
    (\<lambda>e. map (\<lambda>p. \<lparr>note_midi = p, startBeat = offset_of e,
                        durationBeats = quarter_length_of e\<rparr>) (pitches_of e))"
    by (rule ext) (rule ev)
  then have spec: "concat (map element_events es) = spec_note_events es" for es
    by (simp only: spec_note_events_def)
  have key: "sort_key_of = (\<lambda>n. (startBeat n, note_midi n))"
    by (rule ext) (simp add: sort_key_of_def)
  have out: "score_to_note_events sc =
    sort_key (\<lambda>n. (startBeat n, note_midi n)) (spec_note_events (elements sc))"
    by (simp add: score_to_note_events_def spec key)
  have s: "sorted (map (\<lambda>n. (startBeat n, note_midi n)) (score_to_note_events sc))"
    by (simp only: out sorted_sort_key)
  then have "sorted_wrt (\<lambda>a b. (startBeat a, note_midi a) \<le> (startBeat b, note_midi b))
     (score_to_note_events sc)"
    by (simp only: sorted_map)
  then have w: "sorted_wrt (\<lambda>a b. startBeat a < startBeat b \<or>
                 startBeat a = startBeat b \<and> note_midi a \<le> note_midi b)
     (score_to_note_events sc)"
    by (rule sorted_wrt_mono_rel [rotated]) auto
  have m: "mset (score_to_note_events sc) = mset (spec_note_events (elements sc))"
    by (simp add: out)
  have "length (spec_note_events es) = (\<Sum>e\<leftarrow>es. length (pitches_of e))" for es
    by (induction es) (simp_all add: spec_note_events_def)
  then have l: "length (score_to_note_events sc) = (\<Sum>e\<leftarrow>elements sc. length (pitches_of e))"
    by (simp add: out)
  have st: "[n \<leftarrow> score_to_note_events sc. (startBeat n, note_midi n) = k] =
   [n \<leftarrow> spec_note_events (elements sc). (startBeat n, note_midi n) = k]"
    by (simp only: out sort_key_stable)
  from s w m l st show ?thesis by blast
qed

text \<open>A chord written before a rest and two notes, out of order, comes out sorted.\<close>

theorem note_events_sorted_witness:
  "score_to_note_events chord_score =
     [ev 50 0 1, ev 60 1 2, ev 64 1 2, ev 70 1 (1 / 2)] \<and>
   spec_note_events (elements chord_score) =
     [ev 64 1 2, ev 60 1 2, ev 50 0 1, ev 70 1 (1 / 2)] \<and>
   sorted (map (\<lambda>n. (startBeat n, note_midi n))
     [ev 50 0 1, ev 60 1 2, ev 64 1 2, ev 70 1 (1 / 2)]) \<and>
   mset [ev 50 0 1, ev 60 1 2, ev 64 1 2, ev 70 1 (1 / 2)] =
   mset [ev 64 1 2, ev 60 1 2, ev 50 0 1, ev 70 1 (1 / 2)]"
proof -
  have a: "score_to_note_events chord_score =
     [ev 50 0 1, ev 60 1 2, ev 64 1 2, ev 70 1 (1 / 2)]"
    by (simp add: score_to_note_events_def chord_score_def chord_elements_def sort_key_of_def
        ev_def)
  have b: "spec_note_events (elements chord_score) =
     [ev 64 1 2, ev 60 1 2, ev 50 0 1, ev 70 1 (1 / 2)]"
    by (simp add: spec_note_events_def chord_score_def chord_elements_def ev_def)
  from note_events_sorted [of chord_score] a b show ?thesis
    by (simp only: a b)
qed

section \<open>The claims about the sectionizer\<close>

lemma far_notes_sections:
  "split_into_sections far_notes 4 16 =
     [mk_section 0 0 64 [ev 60 0 1], mk_section 1 64 201 [ev 62 200 1]]"
  by (simp add: split_into_sections_def step_def finish_def init_state_def far_notes_def
      ev_def end_beat_def)

lemma five_notes_sections:
  "split_into_sections five_notes_events 4 16 = [mk_section 0 0 5 five_notes_events]"
  by (simp add: split_five five_notes_doc_def mk_section_def str_nat.simps)

text \<open>
  Claim C5. For a non-empty note list the sectionizer returns at least one section and the
  first section starts at beat 0; when the window width \<open>beats_per_bar \<times> bars\<close> is not
  negative the start beats do not decrease along the list. For every accepted file, whose
  beats per bar is the numerator of a time signature or the default 4, the sections of the
  document are non-empty, start at 0 and have non-decreasing start beats.
\<close>

theorem sections_start_beats:
  "(notes \<noteq> [] \<longrightarrow>
      split_into_sections notes bpb bars \<noteq> [] \<and>
      sec_startBeat (hd (split_into_sections notes bpb bars)) = 0 \<and>
      (0 \<le> bpb * bars \<longrightarrow>
         sorted (map sec_startBeat (split_into_sections notes bpb bars)))) \<and>
   (convert_file L fp = Inr (Some doc) \<longrightarrow>
      song_sections doc \<noteq> [] \<and>
      sec_startBeat (hd (song_sections doc)) = 0 \<and>
      sorted (map sec_startBeat (song_sections doc)))"
proof (intro conjI impI)
  assume ne: "notes \<noteq> []"
  then show "split_into_sections notes bpb bars \<noteq> []"
    by (simp add: split_eq_Nil_iff)
  from ne show "sec_startBeat (hd (split_into_sections notes bpb bars)) = 0"
    by (rule split_hd_startBeat)
next
  assume "0 \<le> bpb * bars"
  then show "sorted (map sec_startBeat (split_into_sections notes bpb bars))"
    by (rule split_sorted)
next
  assume c: "convert_file L fp = Inr (Some doc)"
  from convert_file_SomeD [OF c] obtain sc where
    len: "4 \<le> length (score_to_note_events sc)" and
    secs: "song_sections doc =
      split_into_sections (score_to_note_events sc) (fst (extract_time_signature sc)) 16"
    by blast
  from len have ne: "score_to_note_events sc \<noteq> []" by auto
  then show "song_sections doc \<noteq> []"
    by (simp add: secs split_eq_Nil_iff)
  from ne show "sec_startBeat (hd (song_sections doc)) = 0"
    by (simp add: secs split_hd_startBeat)
  show "sorted (map sec_startBeat (song_sections doc))"
    unfolding secs by (rule split_sorted) (rule time_signature_nonneg)
qed

text \<open>Two sections starting at 0 and 64, and the one section of the five-note scale.\<close>

theorem sections_start_beats_witness:
  "far_notes \<noteq> [] \<and> (0::int) \<le> 4 * 16 \<and>
   map sec_startBeat (split_into_sections far_notes 4 16) = [0, 64] \<and>
   sorted (map sec_startBeat (split_into_sections far_notes 4 16)) \<and>
   convert_file (lib_of five_notes) ''five_notes'' = Inr (Some five_notes_doc) \<and>
   map sec_startBeat (song_sections five_notes_doc) = [0] \<and>
   sec_startBeat (hd (song_sections five_notes_doc)) = 0"
proof -
  have n: "far_notes \<noteq> []" by (simp add: far_notes_def)
  have m: "map sec_startBeat (split_into_sections far_notes 4 16) = [0, 64]"
    by (simp add: far_notes_sections mk_section_def)
  have d: "map sec_startBeat (song_sections five_notes_doc) = [0]"
    by (simp add: five_notes_doc_def)
  from sections_start_beats
    [of far_notes 4 16 "lib_of five_notes" "''five_notes''" five_notes_doc] n conv_five
  show ?thesis by (simp add: m d)
qed



text \<open>
  Claim C8 fails on the code. A score that parses, has five notes and a first tempo mark
  of zero is neither converted nor rejected: \<open>convert_file\<close> raises
  \<^verbatim>\<open>ZeroDivisionError\<close> in the duration estimate. (By \<open>convert_file_returns_iff\<close> a
  document is returned exactly when parsing succeeds, at least 4 notes are extracted and
  the extracted tempo is not zero.)
\<close>

theorem zero_tempo_raises:
  "parse (lib_of zero_tempo) ''five_notes'' = Inr zero_tempo \<and>
   length (score_to_note_events zero_tempo) = 5 \<and>
   extract_tempo zero_tempo = 0 \<and>
   convert_file (lib_of zero_tempo) ''five_notes'' = Inl ZeroDivisionError"
proof -
  have p: "parse (lib_of zero_tempo) ''five_notes'' = Inr zero_tempo"
    by (simp add: lib_of_def)
  have "score_to_note_events zero_tempo = score_to_note_events five_notes"
    by (simp add: score_to_note_events_def zero_tempo_def)
  then have l: "length (score_to_note_events zero_tempo) = 5"
    by (simp add: events_five five_notes_events_def)
  have t: "extract_tempo zero_tempo = 0"
    by (simp add: extract_tempo_def zero_tempo_def py_int_def)
  from l have "4 \<le> length (score_to_note_events zero_tempo)" by simp
  from convert_file_zero_tempo [OF p this t] p l t show ?thesis by simp
qed

text \<open>
  Claim C9. The sectionizer returns no section if and only if the note list is empty; a
  non-empty note list gives at least one section.
\<close>

theorem split_empty_iff:
  "(split_into_sections notes bpb bars = [] \<longleftrightarrow> notes = []) \<and>
   (notes \<noteq> [] \<longrightarrow> 1 \<le> length (split_into_sections notes bpb bars))"
proof -
  have "1 \<le> length (split_into_sections notes bpb bars)" if "notes \<noteq> []"
    using length_split [OF that, of bpb bars] by simp
  then show ?thesis
    by (auto simp: split_into_sections_def)
qed

text \<open>Two notes give two sections here, and no note gives none.\<close>

theorem split_empty_iff_witness:
  "far_notes \<noteq> [] \<and> length (split_into_sections far_notes 4 16) = 2 \<and>
   split_into_sections [] 4 16 = []"
proof -
  have n: "far_notes \<noteq> []" by (simp add: far_notes_def)
  have l: "length (split_into_sections far_notes 4 16) = 2"
    by (simp add: far_notes_sections)
  from split_empty_iff [of far_notes 4 16] split_empty_iff [of "[]" 4 16] n l
  show ?thesis by simp
qed

text \<open>
  Claim C10. In every section returned, \<open>melody\<close> and \<open>full\<close> are the same non-empty
  list, and the \<open>full\<close> lists of the sections, concatenated in order, are the input list.
\<close>

theorem sections_partition_notes:
  "(\<forall>s \<in> set (split_into_sections notes bpb bars).
      melody (sec_layers s) = full (sec_layers s) \<and> full (sec_layers s) \<noteq> []) \<and>
   concat (map (\<lambda>s. full (sec_layers s)) (split_into_sections notes bpb bars)) = notes"
  using split_layers [of _ "notes" bpb bars] split_concat [of "notes" bpb bars]
  by blast

text \<open>The second section of the two far notes holds the second note alone.\<close>

theorem sections_partition_notes_witness:
  "mk_section 1 64 201 [ev 62 200 1] \<in> set (split_into_sections far_notes 4 16) \<and>
   melody (sec_layers (mk_section 1 64 201 [ev 62 200 1])) = [ev 62 200 1] \<and>
   full (sec_layers (mk_section 1 64 201 [ev 62 200 1])) = [ev 62 200 1] \<and>
   concat (map (\<lambda>s. full (sec_layers s)) (split_into_sections far_notes 4 16)) = far_notes"
proof -
  have m: "mk_section 1 64 201 [ev 62 200 1] \<in> set (split_into_sections far_notes 4 16)"
    by (simp add: far_notes_sections)
  have f: "full (sec_layers (mk_section 1 64 201 [ev 62 200 1])) = [ev 62 200 1]"
    by (simp add: mk_section_def)
  from sections_partition_notes [of far_notes 4 16] m f show ?thesis
    by auto
qed

end
